theory Spec2Isabelle
  imports Complex_Main "HOL-Library.Word"
begin

section \<open>JavaScript values and the editor's graph state\<close>

text \<open>
  The values the editor keeps in a node's loosely typed \<open>data\<close> bag and in the LLM node's
  configuration object: strings, numbers, booleans, \<open>undefined\<close>, \<open>null\<close> and function
  values (the \<open>onChange\<close> handler). A function value carries a tag that stands for its
  identity. An object is a finite map from property names to values.
\<close>

datatype jsval =
    JUndefined
  | JNull
  | JBool bool
  | JNum real
  | JStr string
  | JFun nat

type_synonym obj = "string \<rightharpoonup> jsval"

text \<open>
  A React Flow node and edge as \<open>WorkflowBuilder\<close> holds them. The record extension
  (\<open>more\<close>) stands for whatever other in-memory fields the library attaches
  (\<open>dragging\<close>, \<open>width\<close>, \<open>style\<close>, ...). The source's field \<open>id\<close> and \<open>type\<close> are
  \<open>node_id\<close>, \<open>node_type\<close>, \<open>edge_id\<close>, \<open>edge_type\<close> here. \<open>data\<close> is \<open>None\<close> when the
  node has no \<open>data\<close> property (the source reads \<open>node.data || {}\<close>).
\<close>

record node =
  node_id :: string
  node_type :: string
  position :: "real \<times> real"
  data :: "obj option"
  selected :: bool

record edge =
  edge_id :: string
  source :: string
  target :: string
  edge_type :: string
  edge_selected :: bool

record toast_state =
  message :: string
  toast_type :: string
  visible :: bool

text \<open>
  The state of \<open>WorkflowBuilder\<close>: the \<open>useState\<close> cells the handlers below read and
  write. \<open>savedWorkflowId\<close> is \<open>null\<close> (\<open>None\<close>) until the workflow has been saved; ids
  are UUID strings.
\<close>

record editor =
  nodes :: "node list"
  edges :: "edge list"
  savedWorkflowId :: "string option"
  showChat :: bool
  toast :: toast_state

definition setNodes :: "(node list \<Rightarrow> node list) \<Rightarrow> editor \<Rightarrow> editor" where
  "setNodes f s = s\<lparr>nodes := f (nodes s)\<rparr>"

definition setEdges :: "(edge list \<Rightarrow> edge list) \<Rightarrow> editor \<Rightarrow> editor" where
  "setEdges f s = s\<lparr>edges := f (edges s)\<rparr>"

text \<open>
  \<open>onNodeDelete\<close> (FlowContent): filter the node out, then filter out the edges connected
  to it.
\<close>

definition onNodeDelete :: "string \<Rightarrow> editor \<Rightarrow> editor" where
  "onNodeDelete nodeId s =
     setEdges (filter (\<lambda>edge. source edge \<noteq> nodeId \<and> target edge \<noteq> nodeId))
       (setNodes (filter (\<lambda>node. node_id node \<noteq> nodeId)) s)"

text \<open>An edge dangles when its source or its target is not the id of a node of the graph.\<close>

definition node_ids :: "editor \<Rightarrow> string set" where
  "node_ids s = node_id ` set (nodes s)"

definition no_dangling_edges :: "editor \<Rightarrow> bool" where
  "no_dangling_edges s =
     list_all (\<lambda>e. source e \<in> node_ids s \<and> target e \<in> node_ids s) (edges s)"

subsection \<open>Running the workflow from the editor\<close>

text \<open>
  \<open>showToast\<close> replaces the toast (the timer that hides it after three seconds is not
  modelled). \<open>js_truthy_id\<close> is JavaScript truthiness of \<open>savedWorkflowId\<close>: \<open>null\<close> and
  the empty string are falsy.
\<close>

definition showToast :: "string \<Rightarrow> string \<Rightarrow> editor \<Rightarrow> editor" where
  "showToast msg ty s = s\<lparr>toast := \<lparr>message = msg, toast_type = ty, visible = True\<rparr>\<rparr>"

definition setShowChat :: "bool \<Rightarrow> editor \<Rightarrow> editor" where
  "setShowChat b s = s\<lparr>showChat := b\<rparr>"

definition js_truthy_id :: "string option \<Rightarrow> bool" where
  "js_truthy_id v = (case v of None \<Rightarrow> False | Some i \<Rightarrow> i \<noteq> [])"

text \<open>
  \<open>handleRunWorkflow\<close> (WorkflowBuilder): four guards, each of which shows an error toast
  and returns; only when all pass is the chat panel opened, from which executions are
  sent. \<open>nodes.find\<close> yields the first node of type \<open>output\<close>.
\<close>

definition handleRunWorkflow :: "editor \<Rightarrow> editor" where
  "handleRunWorkflow s =
     (if length (nodes s) = 0 then
        showToast ''Please add components to your workflow first'' ''error'' s
      else if \<not> js_truthy_id (savedWorkflowId s) then
        showToast ''Please save your workflow first before running it'' ''error'' s
      else
        (case find (\<lambda>n. node_type n = ''output'') (nodes s) of
           None \<Rightarrow> showToast ''Add an Output node to run the workflow'' ''error'' s
         | Some outputNode \<Rightarrow>
             (let hasIncomingToOutput = list_ex (\<lambda>e. target e = node_id outputNode) (edges s)
              in if \<not> hasIncomingToOutput then
                   showToast ''Connect something into the Output node'' ''error'' s
                 else setShowChat True s)))"

text \<open>
  The editor reports a refused run as an error toast. The refusals for a graph that is
  incomplete are the first and the third message (no components at all, no Output node);
  the refusal for a disconnected Output node is the fourth.
\<close>

definition refused_incomplete :: "editor \<Rightarrow> editor \<Rightarrow> bool" where
  "refused_incomplete s s' =
     (s' = showToast ''Please add components to your workflow first'' ''error'' s
      \<or> s' = showToast ''Add an Output node to run the workflow'' ''error'' s)"

definition refused_not_saved :: "editor \<Rightarrow> editor \<Rightarrow> bool" where
  "refused_not_saved s s' =
     (s' = showToast ''Please save your workflow first before running it'' ''error'' s)"

definition refused_disconnected :: "editor \<Rightarrow> editor \<Rightarrow> bool" where
  "refused_disconnected s s' =
     (s' = showToast ''Connect something into the Output node'' ''error'' s)"

text \<open>
  A chain of edges from node \<open>a\<close> to node \<open>b\<close> (one edge, or an edge followed by a
  chain), and whether some node of type \<open>llmEngine\<close> reaches the given node along such
  a chain. The editor computes neither; they state what the run check is compared with.
\<close>

inductive edge_chain :: "edge list \<Rightarrow> string \<Rightarrow> string \<Rightarrow> bool" for es :: "edge list" where
  chain_edge: "e \<in> set es \<Longrightarrow> source e = a \<Longrightarrow> target e = b \<Longrightarrow> edge_chain es a b"
| chain_step: "e \<in> set es \<Longrightarrow> source e = a \<Longrightarrow> edge_chain es (target e) b \<Longrightarrow> edge_chain es a b"

definition llm_reaches :: "editor \<Rightarrow> node \<Rightarrow> bool" where
  "llm_reaches s out =
     list_ex (\<lambda>n. node_type n = ''llmEngine'' \<and> edge_chain (edges s) (node_id n) (node_id out))
       (nodes s)"

subsection \<open>Example graphs\<close>

definition mk_node :: "string \<Rightarrow> string \<Rightarrow> node" where
  "mk_node i ty =
     \<lparr>node_id = i, node_type = ty, position = (0, 0),
      data = Some [''label'' \<mapsto> JStr ty, ''onChange'' \<mapsto> JFun 0], selected = False\<rparr>"

definition mk_edge :: "string \<Rightarrow> string \<Rightarrow> string \<Rightarrow> edge" where
  "mk_edge i a b =
     \<lparr>edge_id = i, source = a, target = b, edge_type = ''custom'', edge_selected = False\<rparr>"

definition no_toast :: toast_state where
  "no_toast = \<lparr>message = [], toast_type = ''success'', visible = False\<rparr>"

text \<open>query and knowledge base feed the LLM node, which feeds the output node.\<close>

definition rag_workflow :: editor where
  "rag_workflow =
     \<lparr>nodes = [mk_node ''q1'' ''userQuery'', mk_node ''k1'' ''knowledgeBase'',
               mk_node ''l1'' ''llmEngine'', mk_node ''o1'' ''output''],
      edges = [mk_edge ''e1'' ''q1'' ''l1'', mk_edge ''e2'' ''k1'' ''l1'',
               mk_edge ''e3'' ''l1'' ''o1''],
      savedWorkflowId = Some ''wf-1'', showChat = False, toast = no_toast\<rparr>"

text \<open>The query node wired straight into the output node; there is no LLM node.\<close>

definition query_to_output_workflow :: editor where
  "query_to_output_workflow =
     \<lparr>nodes = [mk_node ''q1'' ''userQuery'', mk_node ''o1'' ''output''],
      edges = [mk_edge ''e1'' ''q1'' ''o1''],
      savedWorkflowId = Some ''wf-2'', showChat = False, toast = no_toast\<rparr>"

text \<open>A saved graph with a query node only, and one whose output node is isolated.\<close>

definition query_only_workflow :: editor where
  "query_only_workflow =
     \<lparr>nodes = [mk_node ''q1'' ''userQuery''], edges = [],
      savedWorkflowId = Some ''wf-3'', showChat = False, toast = no_toast\<rparr>"

definition isolated_output_workflow :: editor where
  "isolated_output_workflow =
     \<lparr>nodes = [mk_node ''q1'' ''userQuery'', mk_node ''l1'' ''llmEngine'',
               mk_node ''o1'' ''output''],
      edges = [mk_edge ''e1'' ''q1'' ''l1''],
      savedWorkflowId = Some ''wf-4'', showChat = False, toast = no_toast\<rparr>"

text \<open>The same two graphs in an editor whose workflow has never been saved.\<close>

definition unsaved_query_workflow :: editor where
  "unsaved_query_workflow = query_only_workflow\<lparr>savedWorkflowId := None\<rparr>"

definition unsaved_isolated_output_workflow :: editor where
  "unsaved_isolated_output_workflow = isolated_output_workflow\<lparr>savedWorkflowId := None\<rparr>"

text \<open>Two output nodes: the first is fed by the LLM node, the second is isolated.\<close>

definition two_outputs_workflow :: editor where
  "two_outputs_workflow =
     \<lparr>nodes = [mk_node ''q1'' ''userQuery'', mk_node ''l1'' ''llmEngine'',
               mk_node ''o1'' ''output'', mk_node ''o2'' ''output''],
      edges = [mk_edge ''e1'' ''q1'' ''l1'', mk_edge ''e2'' ''l1'' ''o1''],
      savedWorkflowId = Some ''wf-5'', showChat = False, toast = no_toast\<rparr>"

subsection \<open>The LLM node's configuration\<close>

text \<open>
  Reading a property of an object: a missing property reads as \<open>undefined\<close>.
\<close>

definition get_prop :: "obj \<Rightarrow> string \<Rightarrow> jsval" where
  "get_prop ob k = (case ob k of None \<Rightarrow> JUndefined | Some v \<Rightarrow> v)"

text \<open>
  \<open>LLMEngineNode\<close>: the configuration object the component creates with \<open>useState\<close>, and
  the effect that merges the node's \<open>data\<close> over it (\<open>{...prev, ...data}\<close>) when \<open>data\<close> is
  present.
\<close>

definition initial_config :: obj where
  "initial_config =
     [''provider'' \<mapsto> JStr ''openai'',
      ''model'' \<mapsto> JStr ''gpt-3.5-turbo'',
      ''api_key'' \<mapsto> JStr [],
      ''temperature'' \<mapsto> JNum 0.7,
      ''max_tokens'' \<mapsto> JNum 1000,
      ''use_web_search'' \<mapsto> JBool False,
      ''serp_api_key'' \<mapsto> JStr [],
      ''custom_prompt'' \<mapsto> JStr []]"

definition init_from_data :: "obj option \<Rightarrow> obj \<Rightarrow> obj" where
  "init_from_data d prev = (case d of None \<Rightarrow> prev | Some dat \<Rightarrow> prev ++ dat)"

record model_option =
  opt_value :: string
  opt_label :: string

text \<open>\<open>getModelOptions\<close>: a \<open>switch\<close> on the provider, with \<open>[]\<close> as the default case.\<close>

definition getModelOptions :: "jsval \<Rightarrow> model_option list" where
  "getModelOptions provider =
     (if provider = JStr ''openai'' then
        [\<lparr>opt_value = ''gpt-3.5-turbo'', opt_label = ''GPT-3.5 Turbo''\<rparr>,
         \<lparr>opt_value = ''gpt-4'', opt_label = ''GPT-4''\<rparr>,
         \<lparr>opt_value = ''gpt-4-turbo'', opt_label = ''GPT-4 Turbo''\<rparr>]
      else if provider = JStr ''anthropic'' then
        [\<lparr>opt_value = ''claude-3-sonnet'', opt_label = ''Claude 3 Sonnet''\<rparr>,
         \<lparr>opt_value = ''claude-3-opus'', opt_label = ''Claude 3 Opus''\<rparr>,
         \<lparr>opt_value = ''claude-3-haiku'', opt_label = ''Claude 3 Haiku''\<rparr>]
      else if provider = JStr ''gemini'' then
        [\<lparr>opt_value = ''gemini-2.5-pro'', opt_label = ''Gemini 2.5 Pro''\<rparr>,
         \<lparr>opt_value = ''gemini-2.5-flash'', opt_label = ''Gemini 2.5 Flash''\<rparr>,
         \<lparr>opt_value = ''gemini-2.5-flash-lite'', opt_label = ''Gemini 2.5 Flash Lite''\<rparr>,
         \<lparr>opt_value = ''gemini-2.0-flash'', opt_label = ''Gemini 2.0 Flash''\<rparr>,
         \<lparr>opt_value = ''gemini-2.0-flash-lite'', opt_label = ''Gemini 2.0 Flash Lite''\<rparr>]
      else [])"

text \<open>
  \<open>handleConfigChange\<close>: the new configuration, which the component stores with
  \<open>setConfig\<close> and hands to \<open>data.onChange\<close>. \<open>options[0]?.value\<close> is \<open>undefined\<close> (\<open>None\<close>)
  for an empty list, and a string is truthy when it is not empty.
\<close>

definition firstModel_of :: "model_option list \<Rightarrow> string option" where
  "firstModel_of options = (case options of [] \<Rightarrow> None | opt # _ \<Rightarrow> Some (opt_value opt))"

definition handleConfigChange :: "obj \<Rightarrow> string \<Rightarrow> jsval \<Rightarrow> obj" where
  "handleConfigChange config field v =
     (let newConfig = config(field \<mapsto> v) in
      if field = ''provider'' then
        (let options = getModelOptions v in
         case firstModel_of options of
           None \<Rightarrow> newConfig
         | Some firstModel \<Rightarrow>
             if firstModel \<noteq> [] \<and> \<not> list_ex (\<lambda>opt. JStr (opt_value opt) = get_prop newConfig ''model'') options
             then newConfig(''model'' \<mapsto> JStr firstModel)
             else newConfig)
      else newConfig)"

text \<open>The models a provider offers, and a configuration whose model is one of them.\<close>

definition model_values :: "jsval \<Rightarrow> jsval set" where
  "model_values provider = set (map (\<lambda>opt. JStr (opt_value opt)) (getModelOptions provider))"

definition config_consistent :: "obj \<Rightarrow> bool" where
  "config_consistent c = (get_prop c ''model'' \<in> model_values (get_prop c ''provider''))"

text \<open>The warning under the form: shown when \<open>config.api_key\<close> is falsy.\<close>

definition js_truthy :: "jsval \<Rightarrow> bool" where
  "js_truthy v =
     (case v of JUndefined \<Rightarrow> False | JNull \<Rightarrow> False | JBool b \<Rightarrow> b
      | JNum r \<Rightarrow> r \<noteq> 0 | JStr t \<Rightarrow> t \<noteq> [] | JFun _ \<Rightarrow> True)"

definition mock_warning_shown :: "obj \<Rightarrow> bool" where
  "mock_warning_shown config = (\<not> js_truthy (get_prop config ''api_key''))"

subsection \<open>Saving the workflow\<close>

text \<open>
  \<open>handleSaveWorkflow\<close> builds \<open>workflowComponents\<close> from object literals with four
  properties each, so the saved node and the saved edge are records of their own.
  \<open>restData\<close> is the rest of the destructuring \<open>{ onChange, ...restData } = node.data || {}\<close>.
\<close>

record saved_node =
  sn_id :: string
  sn_type :: string
  sn_position :: "real \<times> real"
  sn_data :: obj

record saved_edge =
  se_id :: string
  se_source :: string
  se_target :: string
  se_type :: string

record workflow_components =
  wc_nodes :: "saved_node list"
  wc_edges :: "saved_edge list"

record workflow_data =
  wd_name :: string
  wd_description :: string
  wd_components :: workflow_components

definition restData :: "obj option \<Rightarrow> obj" where
  "restData d = (case d of None \<Rightarrow> Map.empty | Some dat \<Rightarrow> dat |` (- {''onChange''}))"

definition persist_node :: "'a node_scheme \<Rightarrow> saved_node" where
  "persist_node n =
     \<lparr>sn_id = node_id n, sn_type = node_type n, sn_position = position n,
      sn_data = restData (data n)\<rparr>"

definition persist_edge :: "'a edge_scheme \<Rightarrow> saved_edge" where
  "persist_edge e =
     \<lparr>se_id = edge_id e, se_source = source e, se_target = target e, se_type = edge_type e\<rparr>"

definition workflowComponents :: "editor \<Rightarrow> workflow_components" where
  "workflowComponents s =
     \<lparr>wc_nodes = map persist_node (nodes s), wc_edges = map persist_edge (edges s)\<rparr>"

definition workflowData :: "string \<Rightarrow> editor \<Rightarrow> workflow_data" where
  "workflowData itemId s =
     \<lparr>wd_name = ''Workflow for Item '' @ itemId, wd_description = ''AI Workflow'',
      wd_components = workflowComponents s\<rparr>"

text \<open>
  The request \<open>handleSaveWorkflow\<close> sends: an update of the saved workflow, or the creation
  of a new one for the item. Its outcome is a parameter of the model: the promise is
  rejected with a message, or resolved with a result whose \<open>id\<close> may be missing. The
  \<open>isLoading\<close> flag, which only disables the Save button while the request runs, is not
  modelled.
\<close>

datatype save_request =
    UpdateWorkflow string workflow_data
  | CreateWorkflow workflow_data string

datatype 'a outcome = Rejected string | Resolved 'a

definition save_request_of :: "string \<Rightarrow> editor \<Rightarrow> save_request" where
  "save_request_of itemId s =
     (case savedWorkflowId s of
        None \<Rightarrow> CreateWorkflow (workflowData itemId s) itemId
      | Some i \<Rightarrow>
          if i \<noteq> [] then UpdateWorkflow i (workflowData itemId s)
          else CreateWorkflow (workflowData itemId s) itemId)"

definition request_data :: "save_request \<Rightarrow> workflow_data" where
  "request_data r = (case r of UpdateWorkflow _ d \<Rightarrow> d | CreateWorkflow d _ \<Rightarrow> d)"

definition handleSaveWorkflow :: "string \<Rightarrow> string option outcome \<Rightarrow> editor \<Rightarrow> editor" where
  "handleSaveWorkflow itemId result s =
     (case result of
        Rejected msg \<Rightarrow> showToast (''Failed to save workflow: '' @ msg) ''error'' s
      | Resolved rid \<Rightarrow>
          showToast ''Workflow saved successfully!'' ''success''
            (if js_truthy_id (savedWorkflowId s) then s else s\<lparr>savedWorkflowId := rid\<rparr>))"

text \<open>What of a node and of an edge reaches the saved components.\<close>

definition node_view :: "'a node_scheme \<Rightarrow> string \<times> string \<times> (real \<times> real) \<times> obj" where
  "node_view n = (node_id n, node_type n, position n, restData (data n))"

definition edge_view :: "'a edge_scheme \<Rightarrow> string \<times> string \<times> string \<times> string" where
  "edge_view e = (edge_id e, source e, target e, edge_type e)"

text \<open>
  The example workflow after the user has selected the LLM node and its outgoing edge,
  with other handler functions attached.
\<close>

definition rag_workflow_selected :: editor where
  "rag_workflow_selected =
     \<lparr>nodes = [mk_node ''q1'' ''userQuery'', mk_node ''k1'' ''knowledgeBase'',
               (mk_node ''l1'' ''llmEngine'')
                 \<lparr>data := Some [''label'' \<mapsto> JStr ''llmEngine'', ''onChange'' \<mapsto> JFun 7],
                  selected := True\<rparr>,
               mk_node ''o1'' ''output''],
      edges = [mk_edge ''e1'' ''q1'' ''l1'', mk_edge ''e2'' ''k1'' ''l1'',
               (mk_edge ''e3'' ''l1'' ''o1'')\<lparr>edge_selected := True\<rparr>],
      savedWorkflowId = Some ''wf-1'', showChat = True, toast = no_toast\<rparr>"

subsection \<open>The chat panel\<close>

text \<open>
  The texts that pass through the chat (what the user types, what is sent and what is
  shown) are JavaScript strings: sequences of 16-bit UTF-16 code units. \<open>js\<close> writes a
  literal of the source, whose characters are ASCII, as such a string.
\<close>

type_synonym js_string = "16 word list"

definition js :: "string \<Rightarrow> js_string" where
  "js t = map of_char t"

text \<open>
  \<open>ChatInterface\<close>: the JSON object \<open>executionAPI.execute\<close> resolves to, as far as
  \<open>sendMessage\<close> reads it, and the messages the panel keeps. A property that may be
  missing is an option. The source's \<open>text\<close> and \<open>id\<close> are \<open>msg_text\<close> and \<open>msg_id\<close>.
\<close>

record execute_result =
  r_success :: bool
  r_response :: "js_string option"
  r_error :: "string option"
  r_processing_time :: real
  r_llm_used :: string
  r_provider :: "string option"
  r_context_used :: "js_string list"
  r_api_key_provided :: "bool option"

record message_metadata =
  processingTime :: real
  llmUsed :: string
  md_provider :: "string option"
  contextUsed :: "js_string list"
  apiKeyProvided :: "bool option"

record chat_message =
  msg_id :: nat
  msg_text :: js_string
  sender :: string
  timestamp :: string
  isError :: bool
  metadata :: "message_metadata option"

record chat =
  messages :: "chat_message list"
  inputMessage :: js_string
  isLoading :: bool

text \<open>
  \<open>String.prototype.trim\<close> strips the code units that ECMAScript calls white space and
  line terminators: tab, line feed, vertical tab, form feed, carriage return, space,
  no-break space (U+00A0), U+1680, U+2000 to U+200A, the line and paragraph separators
  (U+2028, U+2029), U+202F, U+205F, U+3000 and the byte order mark (U+FEFF). All of them
  are single code units. \<open>inputMessage.trim()\<close> is the empty string, which is falsy,
  exactly when the input holds nothing else.
\<close>

definition js_whitespace :: "16 word \<Rightarrow> bool" where
  "js_whitespace c =
     (c \<in> {0x0009, 0x000A, 0x000B, 0x000C, 0x000D, 0x0020, 0x00A0, 0x1680,
            0x2028, 0x2029, 0x202F, 0x205F, 0x3000, 0xFEFF}
      \<or> (0x2000 \<le> c \<and> c \<le> 0x200A))"

definition blank :: "js_string \<Rightarrow> bool" where
  "blank t = list_all js_whitespace t"

text \<open>
  The request \<open>sendMessage\<close> issues: none when the guard returns, otherwise one call of
  \<open>executionAPI.execute(workflowId, inputMessage)\<close>. There is no loop and no second call
  in the handler.
\<close>

definition sendMessage_requests :: "'w \<Rightarrow> chat \<Rightarrow> ('w \<times> js_string) list" where
  "sendMessage_requests workflowId s =
     (if blank (inputMessage s) \<or> isLoading s then [] else [(workflowId, inputMessage s)])"

text \<open>
  How an execution is started from the editor. \<open>FlowContent\<close> mounts \<open>ChatInterface\<close>
  only while \<open>showChat\<close> holds, with \<open>savedWorkflowId\<close> as its \<open>workflowId\<close>;
  \<open>ChatInterface\<close> renders its input and its Send button, the only callers of
  \<open>sendMessage\<close>, only when the graph has a node of type \<open>userQuery\<close>; and \<open>sendMessage\<close>
  is the only caller of \<open>executionAPI.execute\<close>. \<open>chat_requests s c\<close> are the execute
  requests a Send can issue when the editor is in state \<open>s\<close> and the panel in state \<open>c\<close>.
\<close>

definition hasUserQuery :: "editor \<Rightarrow> bool" where
  "hasUserQuery s = list_ex (\<lambda>n. node_type n = ''userQuery'') (nodes s)"

definition chat_requests :: "editor \<Rightarrow> chat \<Rightarrow> (string option \<times> js_string) list" where
  "chat_requests s c =
     (if showChat s \<and> hasUserQuery s then sendMessage_requests (savedWorkflowId s) c else [])"

definition errorMessage :: "nat \<times> string \<Rightarrow> chat_message" where
  "errorMessage now =
     \<lparr>msg_id = fst now + 1,
      msg_text = js ''Sorry, I encountered an error processing your request. Please try again.'',
      sender = ''ai'', timestamp = snd now, isError = True, metadata = None\<rparr>"

definition aiMessage :: "nat \<times> string \<Rightarrow> execute_result \<Rightarrow> chat_message" where
  "aiMessage now result =
     \<lparr>msg_id = fst now + 1,
      msg_text = (case r_response result of
                    None \<Rightarrow> js ''No response received''
                  | Some t \<Rightarrow> if t = [] then js ''No response received'' else t),
      sender = ''ai'', timestamp = snd now, isError = False,
      metadata = Some \<lparr>processingTime = r_processing_time result,
                        llmUsed = r_llm_used result,
                        md_provider = r_provider result,
                        contextUsed = r_context_used result,
                        apiKeyProvided = r_api_key_provided result\<rparr>\<rparr>"

text \<open>
  \<open>sendMessage\<close>. \<open>sent\<close> and \<open>replied\<close> are \<open>Date.now()\<close> and the locale time string at the
  two moments the handler reads the clock; \<open>outcome\<close> is what the awaited call gives. A
  result with \<open>success\<close> false throws, and the \<open>catch\<close> block serves both that and a
  rejected call.
\<close>

definition sendMessage ::
  "nat \<times> string \<Rightarrow> nat \<times> string \<Rightarrow> execute_result outcome \<Rightarrow> chat \<Rightarrow> chat" where
  "sendMessage sent replied result s =
     (if blank (inputMessage s) \<or> isLoading s then s
      else
        (let userMessage =
               \<lparr>msg_id = fst sent, msg_text = inputMessage s, sender = ''user'',
                timestamp = snd sent, isError = False, metadata = None\<rparr>;
             s1 = s\<lparr>messages := messages s @ [userMessage], inputMessage := [],
                    isLoading := True\<rparr>;
             s2 = (case result of
                     Resolved res \<Rightarrow>
                       if r_success res
                       then s1\<lparr>messages := messages s1 @ [aiMessage replied res]\<rparr>
                       else s1\<lparr>messages := messages s1 @ [errorMessage replied]\<rparr>
                   | Rejected _ \<Rightarrow> s1\<lparr>messages := messages s1 @ [errorMessage replied]\<rparr>)
         in s2\<lparr>isLoading := False\<rparr>))"

text \<open>
  The line under an answer that tells a real answer from a mock one: rendered when
  \<open>apiKeyProvided\<close> is not \<open>undefined\<close>.
\<close>

datatype api_label = RealApi | MockMode

definition api_key_label :: "chat_message \<Rightarrow> api_label option" where
  "api_key_label m =
     (case metadata m of
        None \<Rightarrow> None
      | Some md \<Rightarrow>
          (case apiKeyProvided md of
             None \<Rightarrow> None
           | Some b \<Rightarrow> Some (if b then RealApi else MockMode)))"

subsection \<open>The execution engine behind the chat\<close>

text \<open>
  The service that answers \<open>POST /workflows/{id}/execute\<close> (the workflow engine with its
  Context Gatherer and Generation Invoker) is not among the sources; only its caller,
  \<open>executionAPI.execute\<close>, and the reader of its answer, \<open>sendMessage\<close>, are. The definitions
  of this subsection follow the specification. Queries, prompts, contexts and answers are
  texts of the kind the chat sends and shows; names of providers and models, and
  credentials, are plain strings.
\<close>

text \<open>
  Modelled from the spec: the typed configuration record of an LLM node (sections 3 and
  9), which the missing engine reads from the node's data. The credentials may be absent.
\<close>

record llm_config =
  cfg_provider :: string
  cfg_model :: string
  credential :: "string option"
  temperature :: real
  max_tokens :: nat
  use_web_search :: bool
  search_credential :: "string option"
  custom_prompt :: js_string

text \<open>
  Modelled from the spec: a retrieved snippet of the missing Context Gatherer, with its
  similarity score and source identifier (section 3).
\<close>

record snippet =
  snip_text :: js_string
  snip_score :: real
  snip_source :: string

text \<open>
  Modelled from the spec: the context block of the missing engine, an ordered sequence of
  snippets (section 3).
\<close>

type_synonym ContextBlock = "snippet list"

text \<open>
  Modelled from the spec: the result of the missing Generation Invoker (section 3).
  \<open>elapsed_time\<close> is a wall-clock measurement and is left out of the record.
\<close>

record ExecutionResult =
  generated_text :: js_string
  provider_used :: string
  model_used :: string
  context_snippets_used :: ContextBlock
  credential_was_supplied :: bool

text \<open>
  Modelled from the spec: the error with which the missing Generation Invoker fails
  (section 7), carrying the provider's message.
\<close>

datatype engine_error = ProviderError string

text \<open>
  Modelled from the spec: the collaborators of the missing Generation Invoker
  (section 6). \<open>send\<close> is the provider adapters' uniform contract, selected by the
  provider's name (its first argument), then prompt, model, credential, temperature and
  max tokens; it returns the text or fails with the message of a \<open>ProviderError\<close>.
  \<open>search\<close> is the web-search collaborator. The prompt template and the wording of the mock
  answer are left open by the specification, which fixes only what they are built from:
  custom prompt, context and query for the one, query and context length for the other.
\<close>

record collaborators =
  send :: "string \<Rightarrow> js_string \<Rightarrow> string \<Rightarrow> string \<Rightarrow> real \<Rightarrow> nat \<Rightarrow> string + js_string"
  search :: "js_string \<Rightarrow> string \<Rightarrow> js_string list"
  build_prompt :: "js_string \<Rightarrow> js_string \<Rightarrow> js_string \<Rightarrow> js_string"
  mock_text :: "js_string \<Rightarrow> nat \<Rightarrow> js_string"

text \<open>
  Modelled from the spec: the outbound network calls of the missing Generation Invoker
  (section 5): a web search for a query, or a request to a provider with a prompt.
\<close>

datatype remote_call =
    WebSearch js_string
  | ProviderSend string js_string

text \<open>
  Modelled from the spec: which calls of the missing invoker are provider attempts
  (section 4.3).
\<close>

definition is_provider_call :: "remote_call \<Rightarrow> bool" where
  "is_provider_call c = (case c of ProviderSend _ _ \<Rightarrow> True | WebSearch _ \<Rightarrow> False)"

text \<open>
  Modelled from the spec: a credential of the missing invoker's configuration is supplied
  when it is neither absent nor empty (section 4.3).
\<close>

definition supplied :: "string option \<Rightarrow> bool" where
  "supplied k = (case k of None \<Rightarrow> False | Some t \<Rightarrow> t \<noteq> [])"

text \<open>
  Modelled from the spec: the text of a context block handed to the missing invoker, its
  snippets concatenated (section 2).
\<close>

definition context_text :: "ContextBlock \<Rightarrow> js_string" where
  "context_text ctx = concat (map snip_text ctx)"

text \<open>
  Modelled from the spec: the context length the missing invoker's mock answer is built
  from (section 4.3), the length of the context's text.
\<close>

definition context_length :: "ContextBlock \<Rightarrow> nat" where
  "context_length ctx = length (context_text ctx)"

text \<open>
  Modelled from the spec: the web-search call of the missing invoker (section 4.3): made
  when web search is enabled and a search credential is supplied, silently skipped
  otherwise.
\<close>

definition web_search_calls :: "llm_config \<Rightarrow> js_string \<Rightarrow> remote_call list" where
  "web_search_calls cfg query =
     (if use_web_search cfg \<and> supplied (search_credential cfg) then [WebSearch query] else [])"

text \<open>
  Modelled from the spec: the context the missing invoker builds its prompt from
  (section 4.3): the results of the web search, when it is made, are appended.
\<close>

definition augmented_context ::
  "collaborators \<Rightarrow> llm_config \<Rightarrow> js_string \<Rightarrow> ContextBlock \<Rightarrow> js_string" where
  "augmented_context co cfg query ctx =
     (if use_web_search cfg \<and> supplied (search_credential cfg)
      then context_text ctx @ concat (search co query (the (search_credential cfg)))
      else context_text ctx)"

text \<open>
  Modelled from the spec: the single prompt of the missing invoker (section 4.3), built
  from the custom prompt, the context and the query.
\<close>

definition provider_prompt ::
  "collaborators \<Rightarrow> llm_config \<Rightarrow> js_string \<Rightarrow> ContextBlock \<Rightarrow> js_string" where
  "provider_prompt co cfg query ctx =
     build_prompt co (custom_prompt cfg) (augmented_context co cfg query ctx) query"

text \<open>
  Modelled from the spec: \<open>invoke(llm_config, query, context)\<close> of the missing Generation
  Invoker (section 4.3), returning the remote calls it made, in order, and its result.
  Without a credential it calls no remote endpoint and returns the labelled mock answer;
  with one it queries the web search if configured, sends one request to the configured
  provider, without retry or fallback, and a failure of that request is its result.
\<close>

definition invoke ::
  "collaborators \<Rightarrow> llm_config \<Rightarrow> js_string \<Rightarrow> ContextBlock
     \<Rightarrow> remote_call list \<times> (engine_error + ExecutionResult)" where
  "invoke co cfg query ctx =
     (if \<not> supplied (credential cfg) then
        ([], Inr \<lparr>generated_text = mock_text co query (context_length ctx),
                  provider_used = cfg_provider cfg, model_used = cfg_model cfg,
                  context_snippets_used = ctx, credential_was_supplied = False\<rparr>)
      else
        (let prompt = provider_prompt co cfg query ctx;
             calls = web_search_calls cfg query @ [ProviderSend (cfg_provider cfg) prompt]
         in case send co (cfg_provider cfg) prompt (cfg_model cfg) (the (credential cfg))
                   (temperature cfg) (max_tokens cfg) of
              Inl e \<Rightarrow> (calls, Inl (ProviderError e))
            | Inr t \<Rightarrow>
                (calls, Inr \<lparr>generated_text = t, provider_used = cfg_provider cfg,
                             model_used = cfg_model cfg, context_snippets_used = ctx,
                             credential_was_supplied = True\<rparr>)))"

text \<open>
  Modelled from the spec: the answer of the missing service, as the caller of \<open>invoke\<close>
  hands it to the chat (section 6, Output): an \<open>ExecutionResult\<close> is a successful answer,
  a \<open>ProviderError\<close> a failure for that turn (section 7). The fields on the right are
  the ones \<open>sendMessage\<close> reads; \<open>elapsed\<close> is the measured time.
\<close>

definition execute_response :: "real \<Rightarrow> engine_error + ExecutionResult \<Rightarrow> execute_result" where
  "execute_response elapsed r =
     (case r of
        Inl (ProviderError e) \<Rightarrow>
          \<lparr>r_success = False, r_response = None, r_error = Some e,
           r_processing_time = elapsed, r_llm_used = [], r_provider = None,
           r_context_used = [], r_api_key_provided = None\<rparr>
      | Inr res \<Rightarrow>
          \<lparr>r_success = True, r_response = Some (generated_text res), r_error = None,
           r_processing_time = elapsed, r_llm_used = model_used res,
           r_provider = Some (provider_used res),
           r_context_used = map snip_text (context_snippets_used res),
           r_api_key_provided = Some (credential_was_supplied res)\<rparr>)"

subsection \<open>Example collaborators and configurations\<close>

text \<open>
  A provider that always fails, a mock text that echoes the query and the context
  length, a chat in which a question has been typed, and one whose input holds a
  no-break space, a space and an ideographic space only.
\<close>

definition failing_collaborators :: collaborators where
  "failing_collaborators =
     \<lparr>send = (\<lambda>p prompt m k t n. Inl ''401 Unauthorized''),
      search = (\<lambda>q k. [js ''result for '' @ q]),
      build_prompt = (\<lambda>custom c q. custom @ c @ q),
      mock_text = (\<lambda>q n. js ''[mock] '' @ q @ replicate n 0x002E)\<rparr>"

definition keyed_config :: llm_config where
  "keyed_config =
     \<lparr>cfg_provider = ''openai'', cfg_model = ''gpt-4'', credential = Some ''sk-bad'',
      temperature = 0.7, max_tokens = 1000, use_web_search = True,
      search_credential = Some ''serp-1'', custom_prompt = []\<rparr>"

definition keyless_config :: llm_config where
  "keyless_config = keyed_config\<lparr>credential := Some []\<rparr>"

definition paris_snippet :: snippet where
  "paris_snippet =
     \<lparr>snip_text = js ''Paris is the capital of France'', snip_score = 0.9,
      snip_source = ''geo.pdf''\<rparr>"

definition asking_chat :: chat where
  "asking_chat = \<lparr>messages = [], inputMessage = js ''What is 2+2?'', isLoading = False\<rparr>"

definition spaces_chat :: chat where
  "spaces_chat = \<lparr>messages = [], inputMessage = [0x00A0, 0x0020, 0x3000], isLoading = False\<rparr>"

section \<open>Node deletion\<close>

lemma nodes_onNodeDelete:
  "nodes (onNodeDelete nodeId s) = filter (\<lambda>node. node_id node \<noteq> nodeId) (nodes s)"
  by (simp add: onNodeDelete_def setNodes_def setEdges_def)

lemma edges_onNodeDelete:
  "edges (onNodeDelete nodeId s) =
     filter (\<lambda>edge. source edge \<noteq> nodeId \<and> target edge \<noteq> nodeId) (edges s)"
  by (simp add: onNodeDelete_def setNodes_def setEdges_def)

lemma node_ids_onNodeDelete: "node_ids (onNodeDelete nodeId s) = node_ids s - {nodeId}"
  by (auto simp: node_ids_def nodes_onNodeDelete)

text \<open>
  C8. For every graph state and every node id, \<open>onNodeDelete\<close> removes the nodes with that
  id and keeps all others, removes exactly the edges whose source or target is that id, so
  no remaining edge references the deleted node; and a graph without dangling edges stays
  without dangling edges.
\<close>

theorem onNodeDelete_removes_node_and_edges:
  "set (nodes (onNodeDelete nodeId s)) = {n \<in> set (nodes s). node_id n \<noteq> nodeId}
   \<and> nodeId \<notin> node_ids (onNodeDelete nodeId s)
   \<and> set (edges (onNodeDelete nodeId s))
       = {e \<in> set (edges s). source e \<noteq> nodeId \<and> target e \<noteq> nodeId}
   \<and> (\<forall>e \<in> set (edges (onNodeDelete nodeId s)). source e \<noteq> nodeId \<and> target e \<noteq> nodeId)
   \<and> (no_dangling_edges s \<longrightarrow> no_dangling_edges (onNodeDelete nodeId s))"
proof -
  have dangling: "no_dangling_edges (onNodeDelete nodeId s)" if "no_dangling_edges s"
    using that
    by (auto simp: no_dangling_edges_def list_all_iff node_ids_onNodeDelete edges_onNodeDelete)
  show ?thesis
    using dangling by (auto simp: nodes_onNodeDelete edges_onNodeDelete node_ids_onNodeDelete)
qed

theorem onNodeDelete_removes_node_and_edges_witness:
  "no_dangling_edges rag_workflow
   \<and> no_dangling_edges (onNodeDelete ''k1'' rag_workflow)
   \<and> edges (onNodeDelete ''k1'' rag_workflow)
       = [mk_edge ''e1'' ''q1'' ''l1'', mk_edge ''e3'' ''l1'' ''o1'']
   \<and> list_all (\<lambda>e. source e \<noteq> ''k1'' \<and> target e \<noteq> ''k1'')
        (edges (onNodeDelete ''k1'' rag_workflow))"
proof -
  have nd: "no_dangling_edges rag_workflow"
    by (simp add: no_dangling_edges_def node_ids_def rag_workflow_def mk_node_def mk_edge_def)
  have es: "edges (onNodeDelete ''k1'' rag_workflow)
              = [mk_edge ''e1'' ''q1'' ''l1'', mk_edge ''e3'' ''l1'' ''o1'']"
    by (simp add: edges_onNodeDelete rag_workflow_def mk_edge_def)
  show ?thesis
    using onNodeDelete_removes_node_and_edges [of "''k1''" rag_workflow] nd es
    by (simp add: list_all_iff)
qed

section \<open>Refusing to run an incomplete or disconnected graph\<close>

lemma find_output_None:
  "(\<forall>n \<in> set ns. node_type n \<noteq> ''output'') \<Longrightarrow> find (\<lambda>n. node_type n = ''output'') ns = None"
  by (simp add: find_None_iff)

lemma showToast_frame:
  "nodes (showToast m ty s) = nodes s" "edges (showToast m ty s) = edges s"
  "showChat (showToast m ty s) = showChat s"
  "savedWorkflowId (showToast m ty s) = savedWorkflowId s"
  "toast (showToast m ty s) = \<lparr>message = m, toast_type = ty, visible = True\<rparr>"
  by (simp_all add: showToast_def)

lemma chat_requests_showToast: "chat_requests (showToast m ty s) c = chat_requests s c"
  by (simp add: chat_requests_def hasUserQuery_def showToast_def)

lemma chat_requests_closed: "\<not> showChat s \<Longrightarrow> chat_requests s c = []"
  by (simp add: chat_requests_def)

lemma showToast_eq_iff: "showToast m ty s = showToast m' ty' s \<longleftrightarrow> m = m' \<and> ty = ty'"
proof
  assume "showToast m ty s = showToast m' ty' s"
  then have "toast (showToast m ty s) = toast (showToast m' ty' s)" by simp
  then show "m = m' \<and> ty = ty'" by (simp add: showToast_frame)
qed auto

text \<open>
  C2, as the claim states it, fails: a graph with a query node only has no output node,
  but while its workflow has never been saved \<open>handleRunWorkflow\<close> stops at the guard
  on \<open>savedWorkflowId\<close>, before it looks for an output node, and the error it shows is
  the save-first one, not the incomplete-graph one.
\<close>

theorem handleRunWorkflow_no_output_node_counterexample:
  "list_all (\<lambda>n. node_type n \<noteq> ''output'') (nodes unsaved_query_workflow)
   \<and> handleRunWorkflow unsaved_query_workflow
       = showToast ''Please save your workflow first before running it'' ''error''
           unsaved_query_workflow
   \<and> \<not> refused_incomplete unsaved_query_workflow (handleRunWorkflow unsaved_query_workflow)"
proof -
  have r: "handleRunWorkflow unsaved_query_workflow
             = showToast ''Please save your workflow first before running it'' ''error''
                 unsaved_query_workflow"
    by (simp add: handleRunWorkflow_def unsaved_query_workflow_def query_only_workflow_def
          js_truthy_id_def)
  have n: "\<not> refused_incomplete unsaved_query_workflow
               (showToast ''Please save your workflow first before running it'' ''error''
                  unsaved_query_workflow)"
    by (simp add: refused_incomplete_def showToast_eq_iff)
  have l: "list_all (\<lambda>n. node_type n \<noteq> ''output'') (nodes unsaved_query_workflow)"
    by (simp add: unsaved_query_workflow_def query_only_workflow_def mk_node_def)
  show ?thesis using r n l by simp
qed

text \<open>
  C2, amended. For every graph without a node of type \<open>output\<close> (the empty graph
  included), \<open>handleRunWorkflow\<close> fails: it shows an error toast and changes nothing
  else. The message is \<open>Please add components to your workflow first\<close> for the empty
  graph, \<open>Add an Output node to run the workflow\<close> for a non-empty graph whose workflow
  has been saved (these two are the incomplete-graph refusal), and \<open>Please save your
  workflow first before running it\<close> for a non-empty graph whose workflow has never been
  saved. No execution is started: the chat panel is left as it was, so the execute
  requests that can be sent are the same before and after, and there are none when the
  panel was closed.
\<close>

theorem handleRunWorkflow_no_output_node:
  assumes "\<forall>n \<in> set (nodes s). node_type n \<noteq> ''output''"
  shows "handleRunWorkflow s =
           showToast
             (if nodes s = [] then ''Please add components to your workflow first''
              else if js_truthy_id (savedWorkflowId s)
                then ''Add an Output node to run the workflow''
                else ''Please save your workflow first before running it'')
             ''error'' s
         \<and> (nodes s = [] \<or> js_truthy_id (savedWorkflowId s)
              \<longrightarrow> refused_incomplete s (handleRunWorkflow s))
         \<and> (nodes s \<noteq> [] \<and> \<not> js_truthy_id (savedWorkflowId s)
              \<longrightarrow> refused_not_saved s (handleRunWorkflow s))
         \<and> showChat (handleRunWorkflow s) = showChat s
         \<and> chat_requests (handleRunWorkflow s) c = chat_requests s c
         \<and> (\<not> showChat s \<longrightarrow> chat_requests (handleRunWorkflow s) c = [])"
proof -
  have none: "find (\<lambda>n. node_type n = ''output'') (nodes s) = None"
    using assms by (rule find_output_None)
  have run: "handleRunWorkflow s =
               showToast
                 (if nodes s = [] then ''Please add components to your workflow first''
                  else if js_truthy_id (savedWorkflowId s)
                    then ''Add an Output node to run the workflow''
                    else ''Please save your workflow first before running it'')
                 ''error'' s"
    by (simp add: handleRunWorkflow_def none)
  have inc: "nodes s = [] \<or> js_truthy_id (savedWorkflowId s)
               \<longrightarrow> refused_incomplete s (handleRunWorkflow s)"
    by (auto simp: run refused_incomplete_def)
  have sav: "nodes s \<noteq> [] \<and> \<not> js_truthy_id (savedWorkflowId s)
               \<longrightarrow> refused_not_saved s (handleRunWorkflow s)"
    by (auto simp: run refused_not_saved_def)
  have chat: "showChat (handleRunWorkflow s) = showChat s"
    by (simp only: run showToast_frame)
  have req: "chat_requests (handleRunWorkflow s) c = chat_requests s c"
    by (simp only: run chat_requests_showToast)
  have closed: "\<not> showChat s \<longrightarrow> chat_requests (handleRunWorkflow s) c = []"
    by (simp add: req chat_requests_closed)
  show ?thesis using run inc sav chat req closed by blast
qed

theorem handleRunWorkflow_no_output_node_witness:
  "list_all (\<lambda>n. node_type n \<noteq> ''output'') (nodes query_only_workflow)
   \<and> js_truthy_id (savedWorkflowId query_only_workflow)
   \<and> handleRunWorkflow query_only_workflow
       = showToast ''Add an Output node to run the workflow'' ''error'' query_only_workflow
   \<and> refused_incomplete query_only_workflow (handleRunWorkflow query_only_workflow)
   \<and> showChat (handleRunWorkflow query_only_workflow) = False
   \<and> chat_requests (handleRunWorkflow query_only_workflow) asking_chat = []
   \<and> list_all (\<lambda>n. node_type n \<noteq> ''output'') (nodes unsaved_query_workflow)
   \<and> handleRunWorkflow unsaved_query_workflow
       = showToast ''Please save your workflow first before running it'' ''error''
           unsaved_query_workflow"
proof -
  have h: "\<forall>n \<in> set (nodes query_only_workflow). node_type n \<noteq> ''output''"
    by (simp add: query_only_workflow_def mk_node_def)
  have sv: "js_truthy_id (savedWorkflowId query_only_workflow)"
    "nodes query_only_workflow \<noteq> []"
    by (simp_all add: query_only_workflow_def js_truthy_id_def)
  have sc: "showChat query_only_workflow = False"
    by (simp add: query_only_workflow_def)
  have h': "\<forall>n \<in> set (nodes unsaved_query_workflow). node_type n \<noteq> ''output''"
    by (simp add: unsaved_query_workflow_def query_only_workflow_def mk_node_def)
  have sv': "\<not> js_truthy_id (savedWorkflowId unsaved_query_workflow)"
    "nodes unsaved_query_workflow \<noteq> []"
    by (simp_all add: unsaved_query_workflow_def query_only_workflow_def js_truthy_id_def)
  note t = handleRunWorkflow_no_output_node [OF h, of asking_chat]
  note t' = handleRunWorkflow_no_output_node [OF h', of asking_chat]
  have a: "handleRunWorkflow query_only_workflow
             = showToast ''Add an Output node to run the workflow'' ''error'' query_only_workflow"
    using t sv by simp
  have b: "refused_incomplete query_only_workflow (handleRunWorkflow query_only_workflow)"
    "showChat (handleRunWorkflow query_only_workflow) = False"
    "chat_requests (handleRunWorkflow query_only_workflow) asking_chat = []"
    using t sv sc by blast+
  have c: "handleRunWorkflow unsaved_query_workflow
             = showToast ''Please save your workflow first before running it'' ''error''
                 unsaved_query_workflow"
    using t' sv' by simp
  show ?thesis using h h' sv(1) a b c by (simp add: list_all_iff)
qed

lemma edge_chain_last_edge: "edge_chain es a b \<Longrightarrow> list_ex (\<lambda>e. target e = b) es"
  by (induction rule: edge_chain.induct) (auto simp: list_ex_iff)

lemma no_incoming_no_llm_chain:
  "\<not> list_ex (\<lambda>e. target e = node_id out) (edges s) \<Longrightarrow> \<not> llm_reaches s out"
  by (auto simp: llm_reaches_def list_ex_iff dest: edge_chain_last_edge)

lemma handleRunWorkflow_with_output:
  assumes "find (\<lambda>n. node_type n = ''output'') (nodes s) = Some out"
  shows "handleRunWorkflow s =
           (if \<not> js_truthy_id (savedWorkflowId s) then
              showToast ''Please save your workflow first before running it'' ''error'' s
            else if \<not> list_ex (\<lambda>e. target e = node_id out) (edges s) then
              showToast ''Connect something into the Output node'' ''error'' s
            else setShowChat True s)"
proof -
  have "nodes s \<noteq> []" using assms by auto
  then show ?thesis using assms by (simp add: handleRunWorkflow_def)
qed

lemma find_output_unsaved_isolated:
  "find (\<lambda>n. node_type n = ''output'') (nodes unsaved_isolated_output_workflow)
     = Some (mk_node ''o1'' ''output'')"
  by (simp add: unsaved_isolated_output_workflow_def isolated_output_workflow_def mk_node_def)

lemma find_output_two_outputs:
  "find (\<lambda>n. node_type n = ''output'') (nodes two_outputs_workflow)
     = Some (mk_node ''o1'' ''output'')"
  by (simp add: two_outputs_workflow_def mk_node_def)

text \<open>
  C4, as the claim states it, fails twice. An output node without incoming edges in a
  workflow that has never been saved is refused by the guard on \<open>savedWorkflowId\<close>, with
  the save-first error and not the disconnected-output one. And in a saved graph with
  two output nodes, of which the second has no incoming edge, \<open>handleRunWorkflow\<close> looks
  at the first only, shows no error and opens the chat panel.
\<close>

theorem handleRunWorkflow_output_without_incoming_edge_counterexample:
  "mk_node ''o1'' ''output'' \<in> set (nodes unsaved_isolated_output_workflow)
   \<and> \<not> list_ex (\<lambda>e. target e = ''o1'') (edges unsaved_isolated_output_workflow)
   \<and> handleRunWorkflow unsaved_isolated_output_workflow
       = showToast ''Please save your workflow first before running it'' ''error''
           unsaved_isolated_output_workflow
   \<and> \<not> refused_disconnected unsaved_isolated_output_workflow
         (handleRunWorkflow unsaved_isolated_output_workflow)
   \<and> mk_node ''o2'' ''output'' \<in> set (nodes two_outputs_workflow)
   \<and> \<not> list_ex (\<lambda>e. target e = ''o2'') (edges two_outputs_workflow)
   \<and> handleRunWorkflow two_outputs_workflow = setShowChat True two_outputs_workflow
   \<and> showChat (handleRunWorkflow two_outputs_workflow)
   \<and> toast (handleRunWorkflow two_outputs_workflow) = no_toast"
proof -
  have a: "mk_node ''o1'' ''output'' \<in> set (nodes unsaved_isolated_output_workflow)"
    "\<not> list_ex (\<lambda>e. target e = ''o1'') (edges unsaved_isolated_output_workflow)"
    by (simp_all add: unsaved_isolated_output_workflow_def isolated_output_workflow_def
          mk_edge_def)
  have b: "handleRunWorkflow unsaved_isolated_output_workflow
             = showToast ''Please save your workflow first before running it'' ''error''
                 unsaved_isolated_output_workflow"
    by (simp add: handleRunWorkflow_with_output [OF find_output_unsaved_isolated])
       (simp add: unsaved_isolated_output_workflow_def js_truthy_id_def)
  have c: "\<not> refused_disconnected unsaved_isolated_output_workflow
               (showToast ''Please save your workflow first before running it'' ''error''
                  unsaved_isolated_output_workflow)"
    by (simp add: refused_disconnected_def showToast_eq_iff)
  have d: "mk_node ''o2'' ''output'' \<in> set (nodes two_outputs_workflow)"
    "\<not> list_ex (\<lambda>e. target e = ''o2'') (edges two_outputs_workflow)"
    by (simp_all add: two_outputs_workflow_def mk_edge_def)
  have e: "handleRunWorkflow two_outputs_workflow = setShowChat True two_outputs_workflow"
    by (simp add: handleRunWorkflow_with_output [OF find_output_two_outputs])
       (simp add: two_outputs_workflow_def js_truthy_id_def mk_node_def mk_edge_def)
  have f: "showChat (setShowChat True two_outputs_workflow)"
    "toast (setShowChat True two_outputs_workflow) = no_toast"
    by (simp_all add: setShowChat_def two_outputs_workflow_def)
  show ?thesis using a b c d e f by simp
qed

text \<open>
  C4, amended. For every graph whose first node of type \<open>output\<close> (the one the handler
  looks at, and the output node of a graph that has one) has zero incoming edges,
  \<open>handleRunWorkflow\<close> fails: it shows an error toast and changes nothing else. The
  message is \<open>Connect something into the Output node\<close>, the disconnected-output refusal,
  when the workflow has been saved, and \<open>Please save your workflow first before running
  it\<close> when it has never been saved. No provider or retrieval call follows: the chat
  panel is left as it was, so the execute requests that can be sent are the same before
  and after, and there are none when the panel was closed.
\<close>

theorem handleRunWorkflow_output_without_incoming_edge:
  assumes "find (\<lambda>n. node_type n = ''output'') (nodes s) = Some out"
    and "\<not> list_ex (\<lambda>e. target e = node_id out) (edges s)"
  shows "handleRunWorkflow s =
           showToast
             (if js_truthy_id (savedWorkflowId s) then ''Connect something into the Output node''
              else ''Please save your workflow first before running it'')
             ''error'' s
         \<and> (js_truthy_id (savedWorkflowId s) \<longrightarrow> refused_disconnected s (handleRunWorkflow s))
         \<and> (\<not> js_truthy_id (savedWorkflowId s) \<longrightarrow> refused_not_saved s (handleRunWorkflow s))
         \<and> showChat (handleRunWorkflow s) = showChat s
         \<and> chat_requests (handleRunWorkflow s) c = chat_requests s c
         \<and> (\<not> showChat s \<longrightarrow> chat_requests (handleRunWorkflow s) c = [])"
proof -
  have run: "handleRunWorkflow s =
               showToast
                 (if js_truthy_id (savedWorkflowId s)
                    then ''Connect something into the Output node''
                    else ''Please save your workflow first before running it'')
                 ''error'' s"
    using assms by (simp add: handleRunWorkflow_with_output)
  have dis: "js_truthy_id (savedWorkflowId s) \<longrightarrow> refused_disconnected s (handleRunWorkflow s)"
    by (simp add: run refused_disconnected_def)
  have sav: "\<not> js_truthy_id (savedWorkflowId s) \<longrightarrow> refused_not_saved s (handleRunWorkflow s)"
    by (simp add: run refused_not_saved_def)
  have chat: "showChat (handleRunWorkflow s) = showChat s"
    by (simp only: run showToast_frame)
  have req: "chat_requests (handleRunWorkflow s) c = chat_requests s c"
    by (simp only: run chat_requests_showToast)
  have closed: "\<not> showChat s \<longrightarrow> chat_requests (handleRunWorkflow s) c = []"
    by (simp add: req chat_requests_closed)
  show ?thesis using run dis sav chat req closed by blast
qed

lemma find_output_isolated:
  "find (\<lambda>n. node_type n = ''output'') (nodes isolated_output_workflow)
     = Some (mk_node ''o1'' ''output'')"
  by (simp add: isolated_output_workflow_def mk_node_def)

lemma no_incoming_isolated:
  "\<not> list_ex (\<lambda>e. target e = node_id (mk_node ''o1'' ''output'')) (edges isolated_output_workflow)"
  by (simp add: isolated_output_workflow_def mk_node_def mk_edge_def)

theorem handleRunWorkflow_output_without_incoming_edge_witness:
  "find (\<lambda>n. node_type n = ''output'') (nodes isolated_output_workflow)
     = Some (mk_node ''o1'' ''output'')
   \<and> \<not> list_ex (\<lambda>e. target e = ''o1'') (edges isolated_output_workflow)
   \<and> js_truthy_id (savedWorkflowId isolated_output_workflow)
   \<and> handleRunWorkflow isolated_output_workflow
       = showToast ''Connect something into the Output node'' ''error'' isolated_output_workflow
   \<and> refused_disconnected isolated_output_workflow (handleRunWorkflow isolated_output_workflow)
   \<and> showChat (handleRunWorkflow isolated_output_workflow) = False
   \<and> chat_requests (handleRunWorkflow isolated_output_workflow) asking_chat = []"
proof -
  have sv: "js_truthy_id (savedWorkflowId isolated_output_workflow)"
    by (simp add: isolated_output_workflow_def js_truthy_id_def)
  have sc: "showChat isolated_output_workflow = False"
    by (simp add: isolated_output_workflow_def)
  have ni: "\<not> list_ex (\<lambda>e. target e = ''o1'') (edges isolated_output_workflow)"
    using no_incoming_isolated by (simp add: mk_node_def)
  note t = handleRunWorkflow_output_without_incoming_edge
             [OF find_output_isolated no_incoming_isolated, of asking_chat]
  have a: "handleRunWorkflow isolated_output_workflow
             = showToast ''Connect something into the Output node'' ''error''
                 isolated_output_workflow"
    using t sv by simp
  have b: "refused_disconnected isolated_output_workflow
             (handleRunWorkflow isolated_output_workflow)"
    "showChat (handleRunWorkflow isolated_output_workflow) = False"
    "chat_requests (handleRunWorkflow isolated_output_workflow) asking_chat = []"
    using t sv sc by blast+
  show ?thesis using find_output_isolated ni sv a b by simp
qed

text \<open>
  C3, as the claim states it, fails: with the query node wired straight into the output
  node and no LLM node in the graph, no LLM node reaches the output node, yet
  \<open>handleRunWorkflow\<close> shows no error and opens the chat panel.
\<close>

theorem handleRunWorkflow_llm_unreachable_counterexample:
  "find (\<lambda>n. node_type n = ''output'') (nodes query_to_output_workflow)
     = Some (mk_node ''o1'' ''output'')
   \<and> \<not> llm_reaches query_to_output_workflow (mk_node ''o1'' ''output'')
   \<and> handleRunWorkflow query_to_output_workflow = setShowChat True query_to_output_workflow
   \<and> showChat (handleRunWorkflow query_to_output_workflow)
   \<and> toast (handleRunWorkflow query_to_output_workflow) = no_toast
   \<and> \<not> refused_disconnected query_to_output_workflow (handleRunWorkflow query_to_output_workflow)"
proof -
  have f: "find (\<lambda>n. node_type n = ''output'') (nodes query_to_output_workflow)
             = Some (mk_node ''o1'' ''output'')"
    by (simp add: query_to_output_workflow_def mk_node_def)
  have l: "\<not> llm_reaches query_to_output_workflow (mk_node ''o1'' ''output'')"
    by (simp add: llm_reaches_def query_to_output_workflow_def mk_node_def)
  have r: "handleRunWorkflow query_to_output_workflow = setShowChat True query_to_output_workflow"
    by (simp add: handleRunWorkflow_with_output [OF f])
       (simp add: query_to_output_workflow_def js_truthy_id_def mk_node_def mk_edge_def)
  have t: "toast (setShowChat True query_to_output_workflow) = no_toast"
    by (simp add: setShowChat_def query_to_output_workflow_def)
  have n: "\<not> refused_disconnected query_to_output_workflow
               (setShowChat True query_to_output_workflow)"
    by (simp add: refused_disconnected_def showToast_def setShowChat_def
          query_to_output_workflow_def no_toast_def)
  show ?thesis using f l r t n by (simp add: setShowChat_def)
qed

text \<open>
  C3, amended. For every saved workflow with an output node, \<open>handleRunWorkflow\<close> looks
  only at the edges that end in the output node: when there is none it fails with the
  disconnected-output refusal (and then no LLM node reaches the output node either);
  when there is one it opens the chat panel, whatever the kind of the node the edge
  comes from and whether or not an LLM node reaches the output node.
\<close>

theorem handleRunWorkflow_checks_incoming_edge_only:
  assumes "js_truthy_id (savedWorkflowId s)"
    and "find (\<lambda>n. node_type n = ''output'') (nodes s) = Some out"
  shows "handleRunWorkflow s =
           (if list_ex (\<lambda>e. target e = node_id out) (edges s) then setShowChat True s
            else showToast ''Connect something into the Output node'' ''error'' s)
         \<and> (\<not> list_ex (\<lambda>e. target e = node_id out) (edges s)
              \<longrightarrow> refused_disconnected s (handleRunWorkflow s) \<and> \<not> llm_reaches s out)"
  using assms
  by (simp add: handleRunWorkflow_with_output refused_disconnected_def no_incoming_no_llm_chain)

lemma find_output_rag:
  "find (\<lambda>n. node_type n = ''output'') (nodes rag_workflow) = Some (mk_node ''o1'' ''output'')"
  by (simp add: rag_workflow_def mk_node_def)

lemma saved_rag: "js_truthy_id (savedWorkflowId rag_workflow)"
  by (simp add: rag_workflow_def js_truthy_id_def)

theorem handleRunWorkflow_checks_incoming_edge_only_witness:
  "js_truthy_id (savedWorkflowId rag_workflow)
   \<and> find (\<lambda>n. node_type n = ''output'') (nodes rag_workflow) = Some (mk_node ''o1'' ''output'')
   \<and> list_ex (\<lambda>e. target e = ''o1'') (edges rag_workflow)
   \<and> handleRunWorkflow rag_workflow = setShowChat True rag_workflow
   \<and> js_truthy_id (savedWorkflowId isolated_output_workflow)
   \<and> \<not> list_ex (\<lambda>e. target e = ''o1'') (edges isolated_output_workflow)
   \<and> refused_disconnected isolated_output_workflow (handleRunWorkflow isolated_output_workflow)
   \<and> \<not> llm_reaches isolated_output_workflow (mk_node ''o1'' ''output'')"
proof -
  have e: "list_ex (\<lambda>e. target e = ''o1'') (edges rag_workflow)"
    by (simp add: rag_workflow_def mk_edge_def)
  have sv: "js_truthy_id (savedWorkflowId isolated_output_workflow)"
    by (simp add: isolated_output_workflow_def js_truthy_id_def)
  have ni: "\<not> list_ex (\<lambda>e. target e = ''o1'') (edges isolated_output_workflow)"
    using no_incoming_isolated by (simp add: mk_node_def)
  have id: "node_id (mk_node ''o1'' ''output'') = ''o1''"
    by (simp add: mk_node_def)
  show ?thesis
    using handleRunWorkflow_checks_incoming_edge_only [OF saved_rag find_output_rag]
          handleRunWorkflow_checks_incoming_edge_only [OF sv find_output_isolated]
          saved_rag find_output_rag e sv ni id
    by (simp add: refused_disconnected_def)
qed

section \<open>The LLM node's configuration\<close>

lemma dom_initial_config:
  "dom initial_config =
     {''provider'', ''model'', ''api_key'', ''temperature'', ''max_tokens'',
      ''use_web_search'', ''serp_api_key'', ''custom_prompt''}"
  unfolding initial_config_def by (simp only: dom_fun_upd dom_empty option.simps) auto

text \<open>
  C6. The configuration object of an LLM node is created with a value for every field:
  temperature 0.7, max tokens 1000, web search off, empty custom prompt, provider
  \<open>openai\<close>, model \<open>gpt-3.5-turbo\<close> (and empty keys). These are its fields from the first
  render on; when the node's \<open>data\<close> is merged over it, every field that \<open>data\<close> does not
  carry keeps its default, so no field is ever without a value.
\<close>

theorem initial_config_defaults:
  "initial_config ''temperature'' = Some (JNum 0.7)
   \<and> initial_config ''max_tokens'' = Some (JNum 1000)
   \<and> initial_config ''use_web_search'' = Some (JBool False)
   \<and> initial_config ''custom_prompt'' = Some (JStr [])
   \<and> initial_config ''provider'' = Some (JStr ''openai'')
   \<and> initial_config ''model'' = Some (JStr ''gpt-3.5-turbo'')
   \<and> initial_config ''api_key'' = Some (JStr [])
   \<and> initial_config ''serp_api_key'' = Some (JStr [])
   \<and> init_from_data None initial_config = initial_config
   \<and> (k \<notin> dom dat \<longrightarrow> init_from_data (Some dat) initial_config k = initial_config k)
   \<and> dom initial_config \<subseteq> dom (init_from_data d initial_config)"
proof -
  have merge: "dom initial_config \<subseteq> dom (init_from_data d initial_config)"
    by (cases d) (auto simp: init_from_data_def)
  have keep: "k \<notin> dom dat \<longrightarrow> init_from_data (Some dat) initial_config k = initial_config k"
    by (auto simp: init_from_data_def map_add_def split: option.splits)
  have vals: "initial_config ''temperature'' = Some (JNum 0.7)"
    "initial_config ''max_tokens'' = Some (JNum 1000)"
    "initial_config ''use_web_search'' = Some (JBool False)"
    "initial_config ''custom_prompt'' = Some (JStr [])"
    "initial_config ''provider'' = Some (JStr ''openai'')"
    "initial_config ''model'' = Some (JStr ''gpt-3.5-turbo'')"
    "initial_config ''api_key'' = Some (JStr [])"
    "initial_config ''serp_api_key'' = Some (JStr [])"
    by (simp_all add: initial_config_def)
  have none: "init_from_data None initial_config = initial_config"
    by (simp add: init_from_data_def)
  show ?thesis using merge keep vals none by blast
qed

theorem initial_config_defaults_witness:
  "''temperature'' \<notin> dom [''label'' \<mapsto> JStr ''llmEngine'', ''api_key'' \<mapsto> JStr ''sk-1'']
   \<and> init_from_data (Some [''label'' \<mapsto> JStr ''llmEngine'', ''api_key'' \<mapsto> JStr ''sk-1''])
         initial_config ''temperature'' = Some (JNum 0.7)"
proof -
  have h: "''temperature'' \<notin> dom [''label'' \<mapsto> JStr ''llmEngine'', ''api_key'' \<mapsto> JStr ''sk-1'']"
    by simp
  show ?thesis
    using initial_config_defaults
            [of "''temperature''" "[''label'' \<mapsto> JStr ''llmEngine'', ''api_key'' \<mapsto> JStr ''sk-1'']"]
          h
    by simp
qed

lemma getModelOptions_nonempty_cases:
  assumes "getModelOptions p \<noteq> []"
  shows "p = JStr ''openai'' \<or> p = JStr ''anthropic'' \<or> p = JStr ''gemini''"
  using assms by (auto simp: getModelOptions_def split: if_splits)

lemma firstModel_truthy:
  assumes "getModelOptions p \<noteq> []"
  obtains m where "firstModel_of (getModelOptions p) = Some m" "m \<noteq> []"
    "JStr m \<in> model_values p"
  using getModelOptions_nonempty_cases [OF assms]
  by (auto simp: getModelOptions_def firstModel_of_def model_values_def)

lemma list_ex_model_values:
  "list_ex (\<lambda>opt. JStr (opt_value opt) = v) (getModelOptions p) \<longleftrightarrow> v \<in> model_values p"
  by (auto simp: list_ex_iff model_values_def)

lemma handleConfigChange_provider:
  assumes "firstModel_of (getModelOptions p) = Some m" "m \<noteq> []"
  shows "handleConfigChange c ''provider'' p =
           (if get_prop c ''model'' \<in> model_values p then c(''provider'' \<mapsto> p)
            else c(''provider'' \<mapsto> p, ''model'' \<mapsto> JStr m))"
  using assms by (simp add: handleConfigChange_def list_ex_model_values get_prop_def)

lemma handleConfigChange_other:
  "field \<noteq> ''provider'' \<Longrightarrow> handleConfigChange c field v = c(field \<mapsto> v)"
  by (simp add: handleConfigChange_def)

text \<open>
  C9. For every configuration and every provider with a non-empty model list, changing
  the provider through \<open>handleConfigChange\<close> gives a configuration with that provider
  whose model is in the provider's list: the current model if it is in the list, the
  provider's first model otherwise; nothing else changes. The pair stays consistent
  under the other changes the form makes as well: choosing a model from the current
  provider's list, and changing any field other than provider and model.
\<close>

theorem handleConfigChange_keeps_model_valid:
  assumes "getModelOptions p \<noteq> []"
  shows "get_prop (handleConfigChange c ''provider'' p) ''provider'' = p
         \<and> get_prop (handleConfigChange c ''provider'' p) ''model'' \<in> model_values p
         \<and> config_consistent (handleConfigChange c ''provider'' p)
         \<and> (get_prop c ''model'' \<in> model_values p
              \<longrightarrow> handleConfigChange c ''provider'' p = c(''provider'' \<mapsto> p))
         \<and> (get_prop c ''model'' \<notin> model_values p
              \<longrightarrow> handleConfigChange c ''provider'' p
                    = c(''provider'' \<mapsto> p,
                        ''model'' \<mapsto> JStr (opt_value (hd (getModelOptions p)))))
         \<and> (v \<in> model_values (get_prop c ''provider'')
              \<longrightarrow> config_consistent (handleConfigChange c ''model'' v))
         \<and> (config_consistent c \<and> field \<noteq> ''provider'' \<and> field \<noteq> ''model''
              \<longrightarrow> config_consistent (handleConfigChange c field v'))"
proof -
  obtain m where m: "firstModel_of (getModelOptions p) = Some m" "m \<noteq> []"
    "JStr m \<in> model_values p"
    using assms by (rule firstModel_truthy)
  have hd: "opt_value (hd (getModelOptions p)) = m"
    using m(1) by (auto simp: firstModel_of_def split: list.splits)
  note eq = handleConfigChange_provider [OF m(1,2), of c]
  have a: "get_prop (handleConfigChange c ''provider'' p) ''provider'' = p"
    by (simp add: eq get_prop_def)
  have b: "get_prop (handleConfigChange c ''provider'' p) ''model'' \<in> model_values p"
    using m(3) by (simp add: eq get_prop_def)
  have c: "config_consistent (handleConfigChange c ''provider'' p)"
    using a b by (simp add: config_consistent_def)
  have d: "get_prop c ''model'' \<in> model_values p
             \<longrightarrow> handleConfigChange c ''provider'' p = c(''provider'' \<mapsto> p)"
    by (simp add: eq)
  have e: "get_prop c ''model'' \<notin> model_values p
             \<longrightarrow> handleConfigChange c ''provider'' p
                   = c(''provider'' \<mapsto> p, ''model'' \<mapsto> JStr (opt_value (hd (getModelOptions p))))"
    by (simp add: eq hd)
  have f: "v \<in> model_values (get_prop c ''provider'')
             \<longrightarrow> config_consistent (handleConfigChange c ''model'' v)"
    by (simp add: handleConfigChange_other config_consistent_def get_prop_def)
  have g: "config_consistent c \<and> field \<noteq> ''provider'' \<and> field \<noteq> ''model''
             \<longrightarrow> config_consistent (handleConfigChange c field v')"
    by (simp add: handleConfigChange_other config_consistent_def get_prop_def)
  show ?thesis using a b c d e f g by blast
qed

theorem handleConfigChange_keeps_model_valid_witness:
  "getModelOptions (JStr ''anthropic'') \<noteq> []
   \<and> get_prop initial_config ''model'' \<notin> model_values (JStr ''anthropic'')
   \<and> get_prop (handleConfigChange initial_config ''provider'' (JStr ''anthropic'')) ''model''
       = JStr ''claude-3-sonnet''
   \<and> config_consistent (handleConfigChange initial_config ''provider'' (JStr ''anthropic''))"
proof -
  have h: "getModelOptions (JStr ''anthropic'') \<noteq> []"
    by (simp add: getModelOptions_def)
  have n: "get_prop initial_config ''model'' \<notin> model_values (JStr ''anthropic'')"
    by (simp add: get_prop_def initial_config_def model_values_def getModelOptions_def)
  have hd: "opt_value (hd (getModelOptions (JStr ''anthropic''))) = ''claude-3-sonnet''"
    by (simp add: getModelOptions_def)
  note t = handleConfigChange_keeps_model_valid [OF h, of initial_config]
  have c: "config_consistent (handleConfigChange initial_config ''provider'' (JStr ''anthropic''))"
    using t by blast
  have "handleConfigChange initial_config ''provider'' (JStr ''anthropic'')
          = initial_config(''provider'' \<mapsto> JStr ''anthropic'',
              ''model'' \<mapsto> JStr (opt_value (hd (getModelOptions (JStr ''anthropic'')))))"
    using t n by blast
  then have m: "get_prop (handleConfigChange initial_config ''provider'' (JStr ''anthropic''))
                  ''model'' = JStr ''claude-3-sonnet''"
    by (simp add: hd get_prop_def)
  show ?thesis using h n m c by simp
qed

section \<open>Saving the workflow\<close>

lemma restData_onChange: "restData d ''onChange'' = None"
  by (simp add: restData_def split: option.splits)

lemma restData_other:
  "k \<noteq> ''onChange'' \<Longrightarrow> restData d k = (case d of None \<Rightarrow> None | Some dat \<Rightarrow> dat k)"
  by (simp add: restData_def split: option.splits)

lemma map_persist_node:
  "map persist_node ns =
     map (\<lambda>(i, ty, pos, dat). \<lparr>sn_id = i, sn_type = ty, sn_position = pos, sn_data = dat\<rparr>)
       (map node_view ns)"
  by (simp add: persist_node_def node_view_def)

lemma map_persist_edge:
  "map persist_edge es =
     map (\<lambda>(i, a, b, ty). \<lparr>se_id = i, se_source = a, se_target = b, se_type = ty\<rparr>)
       (map edge_view es)"
  by (simp add: persist_edge_def edge_view_def)

lemma map_persist_node_cong:
  "map node_view ns = map node_view ns' \<Longrightarrow> map persist_node ns = map persist_node ns'"
  by (simp only: map_persist_node)

lemma map_persist_edge_cong:
  "map edge_view es = map edge_view es' \<Longrightarrow> map persist_edge es = map persist_edge es'"
  by (simp only: map_persist_edge)

text \<open>
  C10. For every editor state, the components \<open>handleSaveWorkflow\<close> sends hold one entry
  per node, with the node's id, type and position and its data without \<open>onChange\<close> (every
  other key of data as it is), and one entry per edge, with the edge's id, source, target
  and type. Nothing else reaches them: two editor states whose nodes and edges agree on
  these fields give the same components, whatever their selection flags, their
  \<open>onChange\<close> handlers, the other fields of their nodes and edges, and the rest of the
  editor state.
\<close>

theorem workflowComponents_persists_listed_fields:
  "wd_components (request_data (save_request_of itemId s)) = workflowComponents s
   \<and> length (wc_nodes (workflowComponents s)) = length (nodes s)
   \<and> length (wc_edges (workflowComponents s)) = length (edges s)
   \<and> (i < length (nodes s) \<longrightarrow>
        sn_id (wc_nodes (workflowComponents s) ! i) = node_id (nodes s ! i)
        \<and> sn_type (wc_nodes (workflowComponents s) ! i) = node_type (nodes s ! i)
        \<and> sn_position (wc_nodes (workflowComponents s) ! i) = position (nodes s ! i)
        \<and> sn_data (wc_nodes (workflowComponents s) ! i) ''onChange'' = None
        \<and> (k \<noteq> ''onChange'' \<longrightarrow>
             sn_data (wc_nodes (workflowComponents s) ! i) k
               = (case data (nodes s ! i) of None \<Rightarrow> None | Some dat \<Rightarrow> dat k)))
   \<and> (j < length (edges s) \<longrightarrow>
        se_id (wc_edges (workflowComponents s) ! j) = edge_id (edges s ! j)
        \<and> se_source (wc_edges (workflowComponents s) ! j) = source (edges s ! j)
        \<and> se_target (wc_edges (workflowComponents s) ! j) = target (edges s ! j)
        \<and> se_type (wc_edges (workflowComponents s) ! j) = edge_type (edges s ! j))
   \<and> (map node_view (nodes s) = map node_view (nodes s')
        \<and> map edge_view (edges s) = map edge_view (edges s')
        \<longrightarrow> workflowComponents s = workflowComponents s')"
proof -
  have req: "wd_components (request_data (save_request_of itemId s)) = workflowComponents s"
    by (simp add: request_data_def save_request_of_def workflowData_def split: option.splits)
  have len: "length (wc_nodes (workflowComponents s)) = length (nodes s)"
    "length (wc_edges (workflowComponents s)) = length (edges s)"
    by (simp_all add: workflowComponents_def)
  have nd: "wc_nodes (workflowComponents s) ! i = persist_node (nodes s ! i)"
    if "i < length (nodes s)"
    using that by (simp add: workflowComponents_def)
  have ed: "wc_edges (workflowComponents s) ! j = persist_edge (edges s ! j)"
    if "j < length (edges s)"
    using that by (simp add: workflowComponents_def)
  have frame: "workflowComponents s = workflowComponents s'"
    if "map node_view (nodes s) = map node_view (nodes s')"
      and "map edge_view (edges s) = map edge_view (edges s')"
  proof -
    have "map persist_node (nodes s) = map persist_node (nodes s')"
      using that(1) by (rule map_persist_node_cong)
    moreover have "map persist_edge (edges s) = map persist_edge (edges s')"
      using that(2) by (rule map_persist_edge_cong)
    ultimately show ?thesis by (simp only: workflowComponents_def)
  qed
  have nfields: "sn_id (persist_node n) = node_id n" "sn_type (persist_node n) = node_type n"
    "sn_position (persist_node n) = position n" "sn_data (persist_node n) = restData (data n)"
    for n :: node
    by (simp_all add: persist_node_def)
  have efields: "se_id (persist_edge e) = edge_id e" "se_source (persist_edge e) = source e"
    "se_target (persist_edge e) = target e" "se_type (persist_edge e) = edge_type e"
    for e :: edge
    by (simp_all add: persist_edge_def)
  have npart: "i < length (nodes s) \<longrightarrow>
        sn_id (wc_nodes (workflowComponents s) ! i) = node_id (nodes s ! i)
        \<and> sn_type (wc_nodes (workflowComponents s) ! i) = node_type (nodes s ! i)
        \<and> sn_position (wc_nodes (workflowComponents s) ! i) = position (nodes s ! i)
        \<and> sn_data (wc_nodes (workflowComponents s) ! i) ''onChange'' = None
        \<and> (k \<noteq> ''onChange'' \<longrightarrow>
             sn_data (wc_nodes (workflowComponents s) ! i) k
               = (case data (nodes s ! i) of None \<Rightarrow> None | Some dat \<Rightarrow> dat k))"
    by (simp add: nd nfields restData_onChange restData_other)
  have epart: "j < length (edges s) \<longrightarrow>
        se_id (wc_edges (workflowComponents s) ! j) = edge_id (edges s ! j)
        \<and> se_source (wc_edges (workflowComponents s) ! j) = source (edges s ! j)
        \<and> se_target (wc_edges (workflowComponents s) ! j) = target (edges s ! j)
        \<and> se_type (wc_edges (workflowComponents s) ! j) = edge_type (edges s ! j)"
    by (simp add: ed efields)
  show ?thesis
    using req len frame npart epart by blast
qed

theorem workflowComponents_persists_listed_fields_witness:
  "(2::nat) < length (nodes rag_workflow_selected)
   \<and> selected (nodes rag_workflow_selected ! 2)
   \<and> get_prop (the (data (nodes rag_workflow_selected ! 2))) ''onChange'' = JFun 7
   \<and> sn_id (wc_nodes (workflowComponents rag_workflow_selected) ! 2) = ''l1''
   \<and> sn_data (wc_nodes (workflowComponents rag_workflow_selected) ! 2) ''onChange'' = None
   \<and> sn_data (wc_nodes (workflowComponents rag_workflow_selected) ! 2) ''label''
       = Some (JStr ''llmEngine'')
   \<and> map node_view (nodes rag_workflow_selected) = map node_view (nodes rag_workflow)
   \<and> map edge_view (edges rag_workflow_selected) = map edge_view (edges rag_workflow)
   \<and> workflowComponents rag_workflow_selected = workflowComponents rag_workflow"
proof -
  have l: "(2::nat) < length (nodes rag_workflow_selected)"
    by (simp add: rag_workflow_selected_def)
  have n2: "nodes rag_workflow_selected ! 2
              = (mk_node ''l1'' ''llmEngine'')
                  \<lparr>data := Some [''label'' \<mapsto> JStr ''llmEngine'', ''onChange'' \<mapsto> JFun 7],
                   selected := True\<rparr>"
    by (simp add: rag_workflow_selected_def numeral_2_eq_2)
  have nv: "map node_view (nodes rag_workflow_selected) = map node_view (nodes rag_workflow)"
    by (simp add: rag_workflow_selected_def rag_workflow_def node_view_def mk_node_def
          restData_def)
  have ev: "map edge_view (edges rag_workflow_selected) = map edge_view (edges rag_workflow)"
    by (simp add: rag_workflow_selected_def rag_workflow_def edge_view_def mk_edge_def)
  note t = workflowComponents_persists_listed_fields
             [of "''item-1''" rag_workflow_selected 2 "''label''" 0 rag_workflow]
  have a: "sn_id (wc_nodes (workflowComponents rag_workflow_selected) ! 2) = ''l1''"
    using t l by (simp add: n2 mk_node_def)
  have b: "sn_data (wc_nodes (workflowComponents rag_workflow_selected) ! 2) ''onChange'' = None"
    using t l by simp
  have c: "sn_data (wc_nodes (workflowComponents rag_workflow_selected) ! 2) ''label''
             = Some (JStr ''llmEngine'')"
    using t l by (simp add: n2)
  have d: "workflowComponents rag_workflow_selected = workflowComponents rag_workflow"
    using t nv ev by blast
  show ?thesis using l nv ev a b c d by (simp add: n2 get_prop_def)
qed

section \<open>Answers in the chat: mock mode and provider failures\<close>

lemma sendMessage_resolved:
  assumes "\<not> blank (inputMessage s)" "\<not> isLoading s"
  shows "sendMessage sent replied (Resolved res) s =
           \<lparr>messages = messages s
              @ [\<lparr>msg_id = fst sent, msg_text = inputMessage s, sender = ''user'',
                   timestamp = snd sent, isError = False, metadata = None\<rparr>,
                 if r_success res then aiMessage replied res else errorMessage replied],
            inputMessage = [], isLoading = False\<rparr>"
  using assms by (simp add: sendMessage_def Let_def)

lemma sendMessage_rejected:
  assumes "\<not> blank (inputMessage s)" "\<not> isLoading s"
  shows "sendMessage sent replied (Rejected msg) s =
           \<lparr>messages = messages s
              @ [\<lparr>msg_id = fst sent, msg_text = inputMessage s, sender = ''user'',
                   timestamp = snd sent, isError = False, metadata = None\<rparr>,
                 errorMessage replied],
            inputMessage = [], isLoading = False\<rparr>"
  using assms by (simp add: sendMessage_def Let_def)

lemma invoke_mock:
  assumes "\<not> supplied (credential cfg)"
  shows "invoke co cfg query ctx =
           ([], Inr \<lparr>generated_text = mock_text co query (context_length ctx),
                     provider_used = cfg_provider cfg, model_used = cfg_model cfg,
                     context_snippets_used = ctx, credential_was_supplied = False\<rparr>)"
  using assms by (simp add: invoke_def)

lemma invoke_failure:
  assumes "supplied (credential cfg)"
    and "send co (cfg_provider cfg) (provider_prompt co cfg query ctx) (cfg_model cfg)
           (the (credential cfg)) (temperature cfg) (max_tokens cfg) = Inl e"
  shows "invoke co cfg query ctx =
           (web_search_calls cfg query
              @ [ProviderSend (cfg_provider cfg) (provider_prompt co cfg query ctx)],
            Inl (ProviderError e))"
  using assms by (simp add: invoke_def Let_def)

lemma filter_provider_calls:
  "filter is_provider_call (web_search_calls cfg query @ [ProviderSend p prompt])
     = [ProviderSend p prompt]"
  by (auto simp: web_search_calls_def is_provider_call_def)

lemma api_key_label_aiMessage:
  "api_key_label (aiMessage now res) = map_option (\<lambda>b. if b then RealApi else MockMode)
                                          (r_api_key_provided res)"
  by (simp add: api_key_label_def aiMessage_def split: option.splits)

text \<open>
  C1. For every LLM configuration whose credential is empty or absent, \<open>invoke\<close> makes no
  remote call at all and returns a result with \<open>credential_was_supplied\<close> false whose text
  is the mock text of the query and the context length, so two such invocations with the
  same query and contexts of the same length give the same text. The chat shows that
  result with the Mock Mode label, and the node's form shows its mock-response warning
  whenever \<open>api_key\<close> is empty or missing.
\<close>

theorem invoke_without_credential_is_mock:
  assumes "\<not> supplied (credential cfg)"
  shows "fst (invoke co cfg query ctx) = []
         \<and> snd (invoke co cfg query ctx)
             = Inr \<lparr>generated_text = mock_text co query (context_length ctx),
                    provider_used = cfg_provider cfg, model_used = cfg_model cfg,
                    context_snippets_used = ctx, credential_was_supplied = False\<rparr>
         \<and> (\<not> supplied (credential cfg') \<and> context_length ctx' = context_length ctx
              \<longrightarrow> map_sum id generated_text (snd (invoke co cfg' query ctx'))
                    = map_sum id generated_text (snd (invoke co cfg query ctx)))
         \<and> r_api_key_provided (execute_response elapsed (snd (invoke co cfg query ctx)))
             = Some False
         \<and> (\<not> blank (inputMessage s) \<and> \<not> isLoading s
              \<longrightarrow> api_key_label
                     (last (messages
                        (sendMessage sent replied
                           (Resolved (execute_response elapsed (snd (invoke co cfg query ctx))))
                           s)))
                    = Some MockMode)
         \<and> (get_prop c ''api_key'' = JStr [] \<or> get_prop c ''api_key'' = JUndefined
              \<longrightarrow> mock_warning_shown c)"
proof -
  note inv = invoke_mock [OF assms, of co query ctx]
  have det: "\<not> supplied (credential cfg') \<and> context_length ctx' = context_length ctx
               \<longrightarrow> map_sum id generated_text (snd (invoke co cfg' query ctx'))
                     = map_sum id generated_text (snd (invoke co cfg query ctx))"
    by (simp add: inv invoke_mock)
  have resp: "execute_response elapsed (snd (invoke co cfg query ctx))
                = \<lparr>r_success = True,
                   r_response = Some (mock_text co query (context_length ctx)),
                   r_error = None, r_processing_time = elapsed, r_llm_used = cfg_model cfg,
                   r_provider = Some (cfg_provider cfg),
                   r_context_used = map snip_text ctx, r_api_key_provided = Some False\<rparr>"
    by (simp add: inv execute_response_def)
  have label: "\<not> blank (inputMessage s) \<and> \<not> isLoading s
                 \<longrightarrow> api_key_label
                        (last (messages
                           (sendMessage sent replied
                              (Resolved (execute_response elapsed (snd (invoke co cfg query ctx))))
                              s)))
                       = Some MockMode"
    by (simp add: sendMessage_resolved resp api_key_label_aiMessage)
  have warn: "get_prop c ''api_key'' = JStr [] \<or> get_prop c ''api_key'' = JUndefined
                \<longrightarrow> mock_warning_shown c"
    by (auto simp: mock_warning_shown_def js_truthy_def)
  have calls: "fst (invoke co cfg query ctx) = []"
    by (simp add: inv)
  have res: "snd (invoke co cfg query ctx)
               = Inr \<lparr>generated_text = mock_text co query (context_length ctx),
                      provider_used = cfg_provider cfg, model_used = cfg_model cfg,
                      context_snippets_used = ctx, credential_was_supplied = False\<rparr>"
    by (simp add: inv)
  have flag: "r_api_key_provided (execute_response elapsed (snd (invoke co cfg query ctx)))
                = Some False"
    by (simp add: resp)
  show ?thesis using calls res det flag label warn by blast
qed

lemma keyless_not_supplied: "\<not> supplied (credential keyless_config)"
  by (simp add: keyless_config_def keyed_config_def supplied_def)

lemma asking_chat_ready: "\<not> blank (inputMessage asking_chat) \<and> \<not> isLoading asking_chat"
  by (simp add: asking_chat_def blank_def js_def js_whitespace_def)

lemma spaces_chat_blank: "blank (inputMessage spaces_chat)"
  by (simp add: spaces_chat_def blank_def js_whitespace_def)

lemma sendMessage_blank:
  assumes "blank (inputMessage s)"
  shows "sendMessage sent replied result s = s" "sendMessage_requests workflowId s = []"
  using assms by (simp_all add: sendMessage_def sendMessage_requests_def)

lemma sendMessage_spaces_chat:
  "sendMessage sent replied result spaces_chat = spaces_chat
   \<and> sendMessage_requests workflowId spaces_chat = []"
  using sendMessage_blank [OF spaces_chat_blank] by simp

theorem invoke_without_credential_is_mock_witness:
  "\<not> supplied (credential keyless_config)
   \<and> \<not> blank (inputMessage asking_chat)
   \<and> \<not> isLoading asking_chat
   \<and> fst (invoke failing_collaborators keyless_config (js ''What is 2+2?'') [paris_snippet]) = []
   \<and> api_key_label
        (last (messages
           (sendMessage (1, ''10:00'') (2, ''10:01'')
              (Resolved (execute_response 0
                 (snd (invoke failing_collaborators keyless_config (js ''What is 2+2?'')
                         [paris_snippet]))))
              asking_chat)))
       = Some MockMode
   \<and> get_prop initial_config ''api_key'' = JStr []
   \<and> mock_warning_shown initial_config"
proof -
  have key: "get_prop initial_config ''api_key'' = JStr []"
    by (simp add: get_prop_def initial_config_def)
  show ?thesis
    using invoke_without_credential_is_mock
            [OF keyless_not_supplied, of failing_collaborators "js ''What is 2+2?''"
               "[paris_snippet]" keyless_config "[paris_snippet]" 0 asking_chat
               "(1, ''10:00'')" "(2, ''10:01'')" initial_config]
          keyless_not_supplied asking_chat_ready key
    by blast
qed

text \<open>
  C5. For every execution in which the provider's generation call fails, \<open>invoke\<close> has
  made exactly one provider call, to the configured provider, and its result is the
  \<open>ProviderError\<close>, not a mock result. The chat has sent exactly one request for the
  turn, and whether the failure comes back as an unsuccessful result or as a rejected
  call, the chat appends the error message, flagged as an error and carrying no
  metadata (so neither a generated text nor a Mock Mode label).
\<close>

theorem provider_failure_is_surfaced_once:
  assumes "supplied (credential cfg)"
    and "send co (cfg_provider cfg) (provider_prompt co cfg query ctx) (cfg_model cfg)
           (the (credential cfg)) (temperature cfg) (max_tokens cfg) = Inl e"
  shows "snd (invoke co cfg query ctx) = Inl (ProviderError e)
         \<and> filter is_provider_call (fst (invoke co cfg query ctx))
             = [ProviderSend (cfg_provider cfg) (provider_prompt co cfg query ctx)]
         \<and> length (filter is_provider_call (fst (invoke co cfg query ctx))) = 1
         \<and> \<not> r_success (execute_response elapsed (snd (invoke co cfg query ctx)))
         \<and> (\<not> blank (inputMessage s) \<and> \<not> isLoading s
              \<longrightarrow> sendMessage_requests workflowId s = [(workflowId, inputMessage s)]
                  \<and> last (messages
                       (sendMessage sent replied
                          (Resolved (execute_response elapsed (snd (invoke co cfg query ctx))))
                          s))
                      = errorMessage replied
                  \<and> last (messages (sendMessage sent replied (Rejected msg) s))
                      = errorMessage replied
                  \<and> \<not> isLoading
                        (sendMessage sent replied
                           (Resolved (execute_response elapsed (snd (invoke co cfg query ctx))))
                           s))
         \<and> isError (errorMessage replied)
         \<and> metadata (errorMessage replied) = None
         \<and> api_key_label (errorMessage replied) = None
         \<and> msg_text (errorMessage replied)
             = js ''Sorry, I encountered an error processing your request. Please try again.''"
proof -
  note inv = invoke_failure [OF assms]
  have calls: "filter is_provider_call (fst (invoke co cfg query ctx))
                 = [ProviderSend (cfg_provider cfg) (provider_prompt co cfg query ctx)]"
    by (simp only: inv fst_conv filter_provider_calls)
  have fail: "\<not> r_success (execute_response elapsed (snd (invoke co cfg query ctx)))"
    by (simp add: inv execute_response_def)
  have chat: "\<not> blank (inputMessage s) \<and> \<not> isLoading s
                \<longrightarrow> sendMessage_requests workflowId s = [(workflowId, inputMessage s)]
                    \<and> last (messages
                         (sendMessage sent replied
                            (Resolved (execute_response elapsed (snd (invoke co cfg query ctx))))
                            s))
                        = errorMessage replied
                    \<and> last (messages (sendMessage sent replied (Rejected msg) s))
                        = errorMessage replied
                    \<and> \<not> isLoading
                          (sendMessage sent replied
                             (Resolved (execute_response elapsed (snd (invoke co cfg query ctx))))
                             s)"
    using fail by (simp add: sendMessage_resolved sendMessage_rejected sendMessage_requests_def)
  have err: "isError (errorMessage replied)" "metadata (errorMessage replied) = None"
    "api_key_label (errorMessage replied) = None"
    "msg_text (errorMessage replied)
       = js ''Sorry, I encountered an error processing your request. Please try again.''"
    by (simp_all add: errorMessage_def api_key_label_def)
  show ?thesis using calls fail chat err by (simp add: inv)
qed

lemma keyed_supplied: "supplied (credential keyed_config)"
  by (simp add: keyed_config_def supplied_def)

lemma failing_send:
  "send failing_collaborators (cfg_provider keyed_config)
     (provider_prompt failing_collaborators keyed_config (js ''What is 2+2?'') [paris_snippet])
     (cfg_model keyed_config) (the (credential keyed_config)) (temperature keyed_config)
     (max_tokens keyed_config) = Inl ''401 Unauthorized''"
  by (simp add: failing_collaborators_def)

theorem provider_failure_is_surfaced_once_witness:
  "supplied (credential keyed_config)
   \<and> \<not> blank (inputMessage asking_chat)
   \<and> \<not> isLoading asking_chat
   \<and> snd (invoke failing_collaborators keyed_config (js ''What is 2+2?'') [paris_snippet])
       = Inl (ProviderError ''401 Unauthorized'')
   \<and> length (fst (invoke failing_collaborators keyed_config (js ''What is 2+2?'') [paris_snippet]))
       = 2
   \<and> length (filter is_provider_call
        (fst (invoke failing_collaborators keyed_config (js ''What is 2+2?'') [paris_snippet]))) = 1
   \<and> sendMessage_requests ''wf-1'' asking_chat = [(''wf-1'', (js ''What is 2+2?''))]
   \<and> last (messages
        (sendMessage (1, ''10:00'') (2, ''10:01'')
           (Resolved (execute_response 0
              (snd (invoke failing_collaborators keyed_config (js ''What is 2+2?'')
                      [paris_snippet]))))
           asking_chat))
       = errorMessage (2, ''10:01'')"
proof -
  have two: "length (fst (invoke failing_collaborators keyed_config (js ''What is 2+2?'')
                            [paris_snippet])) = 2"
  proof -
    have "web_search_calls keyed_config (js ''What is 2+2?'') = [WebSearch (js ''What is 2+2?'')]"
      by (simp add: web_search_calls_def keyed_config_def supplied_def)
    then show ?thesis
      by (simp only: invoke_failure [OF keyed_supplied failing_send]) simp
  qed
  have inp: "inputMessage asking_chat = (js ''What is 2+2?'')"
    by (simp add: asking_chat_def)
  note t = provider_failure_is_surfaced_once
             [OF keyed_supplied failing_send, of 0 asking_chat "''wf-1''" "(1, ''10:00'')"
                "(2, ''10:01'')" "''timeout''"]
  have req: "sendMessage_requests ''wf-1'' asking_chat = [(''wf-1'', (js ''What is 2+2?''))]"
    using t asking_chat_ready inp by metis
  show ?thesis
    using t keyed_supplied asking_chat_ready two req by blast
qed

end
